theory Spec2Isabelle
  imports Main "HOL-Library.Sublist"
begin

section \<open>The posting process of the background script\<close>

text \<open>
  A shallow embedding of \<^verbatim>\<open>javascripts/background_scripts/posting_process.js\<close>.
  The script keeps four top-level variables and one \<^verbatim>\<open>localStorage\<close> entry; every
  function of the script becomes a function from the session before the call to an
  outcome: the session after it, the browser calls it made (in order), and the
  exception it ended with, if any.
\<close>

subsection \<open>Values and browser objects\<close>

text \<open>
  The JavaScript values a message field can hold, as far as the script tells them apart:
  \<^verbatim>\<open>undefined\<close> (an absent field), \<^verbatim>\<open>null\<close> (the initial secret) and strings.
\<close>

datatype jsval = JUndefined | JNull | JString string

text \<open>A browser tab: the script reads \<^verbatim>\<open>tab.id\<close> and \<^verbatim>\<open>tab.url\<close>.\<close>

record tab =
  tab_id :: int
  tab_url :: string

text \<open>
  The sender of a message. \<^verbatim>\<open>sender.tab\<close> is absent when the message does not come
  from a tab; reading a property of it then throws.
\<close>

record sender =
  tab :: "tab option"

text \<open>A message: the fields \<^verbatim>\<open>handler\<close>, \<^verbatim>\<open>data\<close> and \<^verbatim>\<open>ask\<close> the listeners read.\<close>

record request =
  handler :: jsval
  data :: jsval
  ask :: jsval

text \<open>
  The first argument of \<^verbatim>\<open>postingHandler\<close>: the context menu passes its click data,
  whose \<^verbatim>\<open>selectionText\<close> is optional; the message listener passes the number 0.
  Reading \<^verbatim>\<open>selectionText\<close> of a number yields \<^verbatim>\<open>undefined\<close>.
\<close>

datatype info = OnClickData "string option" | Number int

fun selectionText :: "info \<Rightarrow> string option" where
  "selectionText (OnClickData t) = t"
| "selectionText (Number n) = None"

text \<open>The window handed to the callback of \<^verbatim>\<open>chrome.windows.create\<close>.\<close>

record window =
  tabs :: "tab list"

subsection \<open>The session\<close>

record session =
  messageSecret :: jsval
  postingResultTab :: "tab option"
  postingApplicationTabId :: "int option"
  postingApplicationStartingValue :: string
  localStorage :: "string \<rightharpoonup> string"

text \<open>The variables as the script initialises them, over an empty \<^verbatim>\<open>localStorage\<close>.\<close>

definition initial_session :: session where
  "initial_session =
     \<lparr>messageSecret = JNull, postingResultTab = None, postingApplicationTabId = None,
      postingApplicationStartingValue = '''', localStorage = Map.empty\<rparr>"

subsection \<open>Browser calls\<close>

text \<open>Messages sent to a host page's content script.\<close>

datatype message =
    PendingPost bool
  | PrivlyUrl jsval bool

text \<open>The object passed to \<^verbatim>\<open>sendResponse\<close>: secret, initialContent (when present), handler.\<close>

datatype response = Response jsval "string option" string

record createData =
  create_url :: string
  create_focused :: bool
  create_top :: int
  create_left :: int
  create_type :: string

text \<open>
  \<open>WindowsCreate\<close> carries, next to the window's data, the \<^verbatim>\<open>sourceTab\<close> its callback
  has captured: the browser later runs \<open>windowCreated\<close> (below) with it.
\<close>

datatype effect =
    WindowsCreate createData "tab option"
  | TabsSendMessage int message
  | TabsUpdateSelected int bool
  | TabsRemove int
  | NotificationShow string string string
  | SendResponse response

datatype js_error = TypeError

record outcome =
  state :: session
  effects :: "effect list"
  thrown :: "js_error option"

text \<open>\<^verbatim>\<open>s.indexOf(pat)\<close>: the first position where \<open>pat\<close> occurs in \<open>s\<close>, or -1.\<close>

fun indexOf :: "string \<Rightarrow> string \<Rightarrow> int" where
  "indexOf [] pat = (if pat = [] then 0 else -1)"
| "indexOf (c # cs) pat =
     (if prefix pat (c # cs) then 0
      else (let r = indexOf cs pat in if r < 0 then -1 else r + 1))"

subsection \<open>The functions of the script\<close>

definition postTwiceWarning :: effect where
  "postTwiceWarning =
     NotificationShow ''../../images/logo_48.png'' ''Privly Warning''
       ''Close the posting window or finish the post before starting a new post.''"

text \<open>
  \<^verbatim>\<open>postingHandler\<close>, up to the call of \<^verbatim>\<open>chrome.windows.create\<close>. The browser's
  \<^verbatim>\<open>chrome.extension.getURL\<close> is the parameter \<open>getURL\<close>. \<^verbatim>\<open>postingDomain\<close> is read
  and defaulted, and not used afterwards.
\<close>

definition postingHandler ::
    "(string \<Rightarrow> string) \<Rightarrow> info \<Rightarrow> tab option \<Rightarrow> string \<Rightarrow> session \<Rightarrow> outcome" where
  "postingHandler getURL info sourceTab postingApplicationName s =
     (if postingApplicationTabId s = None then
        (let s1 = (case localStorage s ''posting_content_server_url'' of
                     None \<Rightarrow>
                       s\<lparr>localStorage :=
                           (localStorage s)(''posting_content_server_url'' \<mapsto>
                              ''https://privlyalpha.org'')\<rparr>
                   | Some postingDomain \<Rightarrow> s);
             postingApplicationUrl =
               getURL (''privly-applications/'' @ postingApplicationName @ ''/new.html'');
             s2 = (case selectionText info of
                     Some t \<Rightarrow> s1\<lparr>postingApplicationStartingValue := t\<rparr>
                   | None \<Rightarrow> s1\<lparr>postingApplicationStartingValue := ''''\<rparr>)
         in \<lparr>state = s2,
             effects =
               [WindowsCreate
                  \<lparr>create_url = postingApplicationUrl, create_focused = True,
                   create_top = 0, create_left = 0, create_type = ''normal''\<rparr>
                  sourceTab],
             thrown = None\<rparr>)
      else \<lparr>state = s, effects = [postTwiceWarning], thrown = None\<rparr>)"

text \<open>
  The callback of \<^verbatim>\<open>chrome.windows.create\<close>, with the \<^verbatim>\<open>sourceTab\<close> it captured.
  \<^verbatim>\<open>newWindow.tabs[0]\<close> is \<^verbatim>\<open>undefined\<close> for a window without tabs, and reading its
  \<^verbatim>\<open>id\<close> throws; so does \<^verbatim>\<open>postingResultTab.id\<close> when \<^verbatim>\<open>sourceTab\<close> is absent,
  after both variables have been assigned.
\<close>

definition windowCreated :: "tab option \<Rightarrow> window \<Rightarrow> session \<Rightarrow> outcome" where
  "windowCreated sourceTab newWindow s =
     (case tabs newWindow of
        [] \<Rightarrow> \<lparr>state = s, effects = [], thrown = Some TypeError\<rparr>
      | t # rest \<Rightarrow>
          (let s1 = s\<lparr>postingApplicationTabId := Some (tab_id t)\<rparr>;
               s2 = s1\<lparr>postingResultTab := sourceTab\<rparr>
           in case postingResultTab s2 of
                None \<Rightarrow> \<lparr>state = s2, effects = [], thrown = Some TypeError\<rparr>
              | Some r \<Rightarrow>
                  \<lparr>state = s2, effects = [TabsSendMessage (tab_id r) (PendingPost True)],
                   thrown = None\<rparr>))"

text \<open>
  \<^verbatim>\<open>receiveNewPrivlyUrl\<close>. \<^verbatim>\<open>sender.tab.id\<close> is read after the host tab has been
  selected and sent the URL, so an absent \<^verbatim>\<open>sender.tab\<close> throws with these two calls
  made and no variable changed.
\<close>

definition receiveNewPrivlyUrl :: "request \<Rightarrow> sender \<Rightarrow> session \<Rightarrow> outcome" where
  "receiveNewPrivlyUrl req sndr s =
     (if handler req = JString ''privlyUrl'' \<and> postingResultTab s \<noteq> None then
        (case postingResultTab s of
           None \<Rightarrow> \<lparr>state = s, effects = [], thrown = None\<rparr>
         | Some r \<Rightarrow>
             (let e = [TabsUpdateSelected (tab_id r) True,
                       TabsSendMessage (tab_id r) (PrivlyUrl (data req) False)]
              in case tab sndr of
                   None \<Rightarrow> \<lparr>state = s, effects = e, thrown = Some TypeError\<rparr>
                 | Some st \<Rightarrow>
                     \<lparr>state = s\<lparr>postingApplicationTabId := None, postingResultTab := None\<rparr>,
                      effects = e @ [TabsRemove (tab_id st)],
                      thrown = None\<rparr>))
      else \<lparr>state = s, effects = [], thrown = None\<rparr>)"

text \<open>
  \<^verbatim>\<open>initializeMessagePathway\<close>. The conjunctions are evaluated left to right, so
  \<^verbatim>\<open>sender.tab\<close> is read only when the handler name has matched.
\<close>

definition initializeMessagePathway :: "request \<Rightarrow> sender \<Rightarrow> session \<Rightarrow> outcome" where
  "initializeMessagePathway req sndr s =
     (if handler req = JString ''messageSecret'' then
        (case tab sndr of
           None \<Rightarrow> \<lparr>state = s, effects = [], thrown = Some TypeError\<rparr>
         | Some t \<Rightarrow>
             (if indexOf (tab_url t) ''chrome-extension://'' = 0 then
                (let s1 = s\<lparr>messageSecret := data req\<rparr>
                 in \<lparr>state = s1,
                     effects = [SendResponse (Response (messageSecret s1) None ''messageSecret'')],
                     thrown = None\<rparr>)
              else \<lparr>state = s, effects = [], thrown = None\<rparr>))
      else if handler req = JString ''initialContent'' then
        (case tab sndr of
           None \<Rightarrow> \<lparr>state = s, effects = [], thrown = Some TypeError\<rparr>
         | Some t \<Rightarrow>
             (if Some (tab_id t) = postingApplicationTabId s then
                \<lparr>state = s,
                 effects = [SendResponse (Response (messageSecret s)
                              (Some (postingApplicationStartingValue s)) ''initialContent'')],
                 thrown = None\<rparr>
              else \<lparr>state = s, effects = [], thrown = None\<rparr>))
      else \<lparr>state = s, effects = [], thrown = None\<rparr>)"

text \<open>\<^verbatim>\<open>sendInitialContent\<close>.\<close>

definition sendInitialContent :: "request \<Rightarrow> sender \<Rightarrow> session \<Rightarrow> outcome" where
  "sendInitialContent req sndr s =
     (if handler req = JString ''initialContent'' then
        (case tab sndr of
           None \<Rightarrow> \<lparr>state = s, effects = [], thrown = Some TypeError\<rparr>
         | Some t \<Rightarrow>
             (if Some (tab_id t) = postingApplicationTabId s then
                \<lparr>state = s,
                 effects = [SendResponse (Response (messageSecret s)
                              (Some (postingApplicationStartingValue s)) ''initialContent'')],
                 thrown = None\<rparr>
              else
                \<lparr>state = s,
                 effects = [SendResponse (Response (messageSecret s) (Some '''')
                              ''initialContent'')],
                 thrown = None\<rparr>))
      else \<lparr>state = s, effects = [], thrown = None\<rparr>)"

text \<open>\<^verbatim>\<open>tabRemoved\<close>; its second argument is not read.\<close>

definition tabRemoved :: "int \<Rightarrow> session \<Rightarrow> outcome" where
  "tabRemoved tabId s =
     (if postingResultTab s = None \<or> postingApplicationTabId s = None then
        \<lparr>state = s, effects = [], thrown = None\<rparr>
      else
        (case (postingResultTab s, postingApplicationTabId s) of
           (Some r, Some a) \<Rightarrow>
             (if tabId = a then
                \<lparr>state = s\<lparr>postingResultTab := None, postingApplicationTabId := None,
                            postingApplicationStartingValue := ''''\<rparr>,
                 effects = [TabsSendMessage (tab_id r) (PendingPost False)],
                 thrown = None\<rparr>
              else if tabId = tab_id r then
                \<lparr>state = s\<lparr>postingResultTab := None, postingApplicationTabId := None,
                            postingApplicationStartingValue := ''''\<rparr>,
                 effects = [TabsRemove a],
                 thrown = None\<rparr>
              else \<lparr>state = s, effects = [], thrown = None\<rparr>)
         | _ \<Rightarrow> \<lparr>state = s, effects = [], thrown = None\<rparr>))"

text \<open>
  The listener of \<^verbatim>\<open>chrome.runtime.onMessage\<close> at the end of the script: the request
  of the content script's button.
\<close>

definition newPostListener ::
    "(string \<Rightarrow> string) \<Rightarrow> request \<Rightarrow> sender \<Rightarrow> session \<Rightarrow> outcome" where
  "newPostListener getURL req sndr s =
     (if ask req = JString ''newPost'' then
        postingHandler getURL (Number 0) (tab sndr) ''ZeroBin'' s
      else \<lparr>state = s, effects = [], thrown = None\<rparr>)"

subsection \<open>Sequences of triggers, and concrete inputs\<close>

text \<open>
  A sequence of trigger events, each a call of \<^verbatim>\<open>postingHandler\<close> with its three
  arguments, run one after the other on the session the previous one left; the browser
  calls are collected in order. (\<^verbatim>\<open>postingHandler\<close> itself never throws.)
\<close>

fun postingHandlers ::
    "(string \<Rightarrow> string) \<Rightarrow> (info \<times> tab option \<times> string) list \<Rightarrow> session \<Rightarrow>
     session \<times> effect list" where
  "postingHandlers getURL [] s = (s, [])"
| "postingHandlers getURL ((info, sourceTab, postingApplicationName) # rest) s =
     (let o1 = postingHandler getURL info sourceTab postingApplicationName s;
          (s2, es) = postingHandlers getURL rest (state o1)
      in (s2, effects o1 @ es))"

text \<open>
  The browser's \<^verbatim>\<open>chrome.extension.getURL\<close> for an extension with the given id: the
  path under the extension's own origin.
\<close>

definition chrome_getURL :: "string \<Rightarrow> string \<Rightarrow> string" where
  "chrome_getURL extensionId path = ''chrome-extension://'' @ extensionId @ ''/'' @ path"

text \<open>The locations of the windows a list of browser calls opens.\<close>

fun created_urls :: "effect list \<Rightarrow> string list" where
  "created_urls [] = []"
| "created_urls (WindowsCreate d src # es) = create_url d # created_urls es"
| "created_urls (e # es) = created_urls es"

text \<open>An idle session whose configured base URL is \<open>base\<close>.\<close>

definition configured_session :: "string \<Rightarrow> session" where
  "configured_session base =
     initial_session\<lparr>localStorage := [''posting_content_server_url'' \<mapsto> base]\<rparr>"

text \<open>
  A pending session: host tab 7, posting application tab 9, the draft \<open>hello\<close> and a
  registered secret.
\<close>

definition host_tab :: tab where
  "host_tab = \<lparr>tab_id = 7, tab_url = ''https://example.org/compose''\<rparr>"

definition app_tab :: tab where
  "app_tab =
     \<lparr>tab_id = 9,
      tab_url = ''chrome-extension://abcdefghijklmnop/privly-applications/ZeroBin/new.html''\<rparr>"

definition pending_session :: session where
  "pending_session =
     \<lparr>messageSecret = JString ''S'', postingResultTab = Some host_tab,
      postingApplicationTabId = Some 9, postingApplicationStartingValue = ''hello'',
      localStorage = Map.empty\<rparr>"

definition secret_request :: "string \<Rightarrow> request" where
  "secret_request token =
     \<lparr>handler = JString ''messageSecret'', data = JString token, ask = JUndefined\<rparr>"

definition privlyUrl_request :: "string \<Rightarrow> request" where
  "privlyUrl_request link =
     \<lparr>handler = JString ''privlyUrl'', data = JString link, ask = JUndefined\<rparr>"

definition initialContent_request :: request where
  "initialContent_request =
     \<lparr>handler = JString ''initialContent'', data = JUndefined, ask = JUndefined\<rparr>"

definition newPost_request :: request where
  "newPost_request = \<lparr>handler = JUndefined, data = JUndefined, ask = JString ''newPost''\<rparr>"

section \<open>Properties\<close>

subsection \<open>Helper facts\<close>

lemma indexOf_zero_iff_prefix: "indexOf str pat = 0 \<longleftrightarrow> prefix pat str"
proof (cases str)
  case Nil
  then show ?thesis by simp
next
  case (Cons c cs)
  then show ?thesis by (simp add: Let_def)
qed

lemma app_tab_in_namespace: "prefix ''chrome-extension://'' (tab_url app_tab)"
  by (simp add: app_tab_def)

subsection \<open>A result with no host tab bound\<close>

text \<open>
  C7: a \<^verbatim>\<open>privlyUrl\<close> message received while \<^verbatim>\<open>postingResultTab\<close> is undefined is
  ignored. \<^verbatim>\<open>receiveNewPrivlyUrl\<close> makes no browser call at all (no tab update, no
  message, no tab removal), throws nothing, and returns the session as it was.
\<close>

theorem receiveNewPrivlyUrl_unbound_ignored:
  assumes "postingResultTab s = None"
  shows "receiveNewPrivlyUrl req sndr s = \<lparr>state = s, effects = [], thrown = None\<rparr>"
  using assms by (simp add: receiveNewPrivlyUrl_def)

theorem receiveNewPrivlyUrl_unbound_ignored_witness:
  "postingResultTab initial_session = None \<and>
   receiveNewPrivlyUrl
     \<lparr>handler = JString ''privlyUrl'', data = JString ''https://x/p/abc'', ask = JUndefined\<rparr>
     \<lparr>tab = Some \<lparr>tab_id = 9, tab_url = ''chrome-extension://abc/new.html''\<rparr>\<rparr>
     initial_session
   = \<lparr>state = initial_session, effects = [], thrown = None\<rparr>"
proof -
  have unbound: "postingResultTab initial_session = None"
    by (simp add: initial_session_def)
  show ?thesis
    using unbound receiveNewPrivlyUrl_unbound_ignored [OF unbound] by simp
qed


subsection \<open>A second trigger while a post is pending\<close>

text \<open>
  C1: once a posting application tab is bound (the session is pending), every trigger of
  every sequence of triggers is rejected: the whole session, and with it
  \<^verbatim>\<open>postingResultTab\<close> and \<^verbatim>\<open>postingApplicationTabId\<close>, is what it was, and the only
  browser calls are the warning notifications, one per trigger.
\<close>

theorem postingHandlers_pending_unchanged:
  assumes "postingApplicationTabId s \<noteq> None"
  shows "postingHandlers getURL triggers s = (s, replicate (length triggers) postTwiceWarning)"
  using assms
proof (induction triggers)
  case Nil
  then show ?case by simp
next
  case (Cons t rest)
  obtain info sourceTab name where t: "t = (info, sourceTab, name)"
    by (cases t) auto
  have one: "postingHandler getURL info sourceTab name s =
      \<lparr>state = s, effects = [postTwiceWarning], thrown = None\<rparr>"
    using Cons.prems by (cases "postingApplicationTabId s") (simp_all add: postingHandler_def)
  show ?case
    using Cons one t by simp
qed

theorem postingHandlers_pending_unchanged_witness:
  "postingApplicationTabId pending_session \<noteq> None \<and>
   postingHandlers (chrome_getURL ''abcdefghijklmnop'')
     [(OnClickData (Some ''again''), Some app_tab, ''PlainPost''),
      (Number 0, Some host_tab, ''ZeroBin'')]
     pending_session
   = (pending_session, [postTwiceWarning, postTwiceWarning])"
proof -
  have bound: "postingApplicationTabId pending_session \<noteq> None"
    by (simp add: pending_session_def)
  show ?thesis
    using bound
      postingHandlers_pending_unchanged [OF bound, of "chrome_getURL ''abcdefghijklmnop''"
        "[(OnClickData (Some ''again''), Some app_tab, ''PlainPost''),
          (Number 0, Some host_tab, ''ZeroBin'')]"]
    by (simp add: numeral_2_eq_2)
qed

subsection \<open>Registering the secret\<close>

text \<open>
  C2, as the claim states it, fails: the script assigns \<^verbatim>\<open>request.data\<close> to
  \<^verbatim>\<open>messageSecret\<close> on every accepted registration. After the tokens \<open>first\<close> and
  \<open>second\<close>, sent in this order from a tab of the extension, the secret is \<open>second\<close>.
\<close>

theorem secret_overwritten_counterexample:
  "messageSecret (state (initializeMessagePathway (secret_request ''second'') \<lparr>tab = Some app_tab\<rparr>
      (state (initializeMessagePathway (secret_request ''first'') \<lparr>tab = Some app_tab\<rparr>
         initial_session))))
   = JString ''second'' \<and>
   messageSecret (state (initializeMessagePathway (secret_request ''second'') \<lparr>tab = Some app_tab\<rparr>
      (state (initializeMessagePathway (secret_request ''first'') \<lparr>tab = Some app_tab\<rparr>
         initial_session))))
   \<noteq> JString ''first''"
  by (simp add: initializeMessagePathway_def secret_request_def indexOf_zero_iff_prefix
      app_tab_in_namespace)

text \<open>
  C2, amended: every \<^verbatim>\<open>messageSecret\<close> message from a tab of the extension's namespace
  overwrites the secret with its token and is answered with that token. After two
  registrations the secret is the second token, whatever the first one was.
\<close>

theorem secret_registration_overwrites:
  assumes "handler reqA = JString ''messageSecret''"
    and "handler reqB = JString ''messageSecret''"
    and "tab sndrA = Some ta" and "prefix ''chrome-extension://'' (tab_url ta)"
    and "tab sndrB = Some tb" and "prefix ''chrome-extension://'' (tab_url tb)"
  shows "initializeMessagePathway reqA sndrA s =
           \<lparr>state = s\<lparr>messageSecret := data reqA\<rparr>,
            effects = [SendResponse (Response (data reqA) None ''messageSecret'')],
            thrown = None\<rparr> \<and>
         initializeMessagePathway reqB sndrB (state (initializeMessagePathway reqA sndrA s)) =
           \<lparr>state = s\<lparr>messageSecret := data reqB\<rparr>,
            effects = [SendResponse (Response (data reqB) None ''messageSecret'')],
            thrown = None\<rparr>"
  using assms by (simp add: initializeMessagePathway_def indexOf_zero_iff_prefix)

theorem secret_registration_overwrites_witness:
  "initializeMessagePathway (secret_request ''first'') \<lparr>tab = Some app_tab\<rparr> initial_session =
     \<lparr>state = initial_session\<lparr>messageSecret := JString ''first''\<rparr>,
      effects = [SendResponse (Response (JString ''first'') None ''messageSecret'')],
      thrown = None\<rparr> \<and>
   initializeMessagePathway (secret_request ''second'') \<lparr>tab = Some app_tab\<rparr>
     (state (initializeMessagePathway (secret_request ''first'') \<lparr>tab = Some app_tab\<rparr>
        initial_session)) =
     \<lparr>state = initial_session\<lparr>messageSecret := JString ''second''\<rparr>,
      effects = [SendResponse (Response (JString ''second'') None ''messageSecret'')],
      thrown = None\<rparr>"
proof -
  have ha: "handler (secret_request ''first'') = JString ''messageSecret''"
    by (simp add: secret_request_def)
  have hb: "handler (secret_request ''second'') = JString ''messageSecret''"
    by (simp add: secret_request_def)
  have t: "tab \<lparr>tab = Some app_tab\<rparr> = Some app_tab"
    by simp
  have d: "\<And>token. data (secret_request token) = JString token"
    by (simp add: secret_request_def)
  show ?thesis
    using secret_registration_overwrites
      [OF ha hb t app_tab_in_namespace t app_tab_in_namespace, of initial_session]
    unfolding d by assumption
qed

subsection \<open>Relaying a result\<close>

text \<open>
  C3: on a successful relay, \<^verbatim>\<open>receiveNewPrivlyUrl\<close> clears \<^verbatim>\<open>postingResultTab\<close> and
  \<^verbatim>\<open>postingApplicationTabId\<close>, and leaves \<^verbatim>\<open>postingApplicationStartingValue\<close> as it
  was. On the pending session with the draft \<open>hello\<close>, the result sent by the posting
  application's tab is relayed to the host tab 7, tab 9 is removed, and the draft is
  still \<open>hello\<close> afterwards, also once the removal of tab 9 has been notified to
  \<^verbatim>\<open>tabRemoved\<close>; on the pending session itself \<^verbatim>\<open>tabRemoved\<close> resets the draft to
  the empty string.
\<close>

theorem receiveNewPrivlyUrl_keeps_starting_value:
  "receiveNewPrivlyUrl (privlyUrl_request ''https://x/p/abc'') \<lparr>tab = Some app_tab\<rparr>
     pending_session =
     \<lparr>state = pending_session\<lparr>postingApplicationTabId := None, postingResultTab := None\<rparr>,
      effects = [TabsUpdateSelected 7 True,
                 TabsSendMessage 7 (PrivlyUrl (JString ''https://x/p/abc'') False),
                 TabsRemove 9],
      thrown = None\<rparr> \<and>
   postingApplicationStartingValue
     (state (receiveNewPrivlyUrl (privlyUrl_request ''https://x/p/abc'') \<lparr>tab = Some app_tab\<rparr>
        pending_session)) = ''hello'' \<and>
   postingApplicationStartingValue
     (state (tabRemoved 9
        (state (receiveNewPrivlyUrl (privlyUrl_request ''https://x/p/abc'')
           \<lparr>tab = Some app_tab\<rparr> pending_session)))) = ''hello'' \<and>
   postingApplicationStartingValue (state (tabRemoved 9 pending_session)) = ''''"
  by (simp add: receiveNewPrivlyUrl_def tabRemoved_def privlyUrl_request_def
      pending_session_def host_tab_def app_tab_def)

lemma receiveNewPrivlyUrl_starting_value_unchanged:
  "postingApplicationStartingValue (state (receiveNewPrivlyUrl req sndr s)) =
   postingApplicationStartingValue s"
  by (simp add: receiveNewPrivlyUrl_def Let_def split: option.splits)

subsection \<open>The location of the posting window\<close>

text \<open>
  C4, as the claim states it, fails: the configured base URL takes no part in the
  location. With the base \<open>https://example.org\<close> and with the base
  \<open>https://other.example\<close> the window of ZeroBin opens at the same location under the
  extension's own origin, and the configured base is not a part of it.
\<close>

theorem posting_url_ignores_base_counterexample:
  "created_urls (effects (postingHandler (chrome_getURL ''abcdefghijklmnop'') (OnClickData None)
      (Some host_tab) ''ZeroBin'' (configured_session ''https://example.org'')))
   = [''chrome-extension://abcdefghijklmnop/privly-applications/ZeroBin/new.html''] \<and>
   created_urls (effects (postingHandler (chrome_getURL ''abcdefghijklmnop'') (OnClickData None)
      (Some host_tab) ''ZeroBin'' (configured_session ''https://other.example'')))
   = [''chrome-extension://abcdefghijklmnop/privly-applications/ZeroBin/new.html''] \<and>
   \<not> sublist ''https://example.org''
      ''chrome-extension://abcdefghijklmnop/privly-applications/ZeroBin/new.html''"
proof -
  have absent: "\<not> sublist ''https://example.org''
      ''chrome-extension://abcdefghijklmnop/privly-applications/ZeroBin/new.html''"
    by code_simp
  show ?thesis
    using absent
    by (simp add: postingHandler_def chrome_getURL_def configured_session_def
        initial_session_def)
qed

text \<open>
  C4, amended: for every application name and every content of \<^verbatim>\<open>localStorage\<close>, a
  trigger accepted by \<^verbatim>\<open>postingHandler\<close> opens one window, at the location
  \<^verbatim>\<open>chrome.extension.getURL\<close> gives for \<^verbatim>\<open>privly-applications/<name>/new.html\<close>; the
  location does not depend on the configured base URL. The configured base URL is only
  read, and stored as \<open>https://privlyalpha.org\<close> when it was unset.
\<close>

theorem posting_url_from_extension:
  assumes "postingApplicationTabId s = None"
  shows "effects (postingHandler getURL info sourceTab name (s\<lparr>localStorage := store\<rparr>)) =
           [WindowsCreate
              \<lparr>create_url = getURL (''privly-applications/'' @ name @ ''/new.html''),
               create_focused = True, create_top = 0, create_left = 0,
               create_type = ''normal''\<rparr> sourceTab] \<and>
         localStorage (state (postingHandler getURL info sourceTab name (s\<lparr>localStorage := store\<rparr>)))
           ''posting_content_server_url'' =
           Some (case store ''posting_content_server_url'' of
                   None \<Rightarrow> ''https://privlyalpha.org'' | Some base \<Rightarrow> base)"
  using assms
  by (simp add: postingHandler_def Let_def split: option.splits)

theorem posting_url_from_extension_witness:
  "postingApplicationTabId initial_session = None \<and>
   effects (postingHandler (chrome_getURL ''abcdefghijklmnop'') (OnClickData None) (Some host_tab)
      ''PlainPost'' (configured_session ''https://example.org'')) =
     [WindowsCreate
        \<lparr>create_url = ''chrome-extension://abcdefghijklmnop/privly-applications/PlainPost/new.html'',
         create_focused = True, create_top = 0, create_left = 0,
         create_type = ''normal''\<rparr> (Some host_tab)] \<and>
   localStorage (state (postingHandler (chrome_getURL ''abcdefghijklmnop'') (OnClickData None)
      (Some host_tab) ''PlainPost'' (configured_session ''https://example.org'')))
     ''posting_content_server_url'' = Some ''https://example.org''"
proof -
  have idle: "postingApplicationTabId initial_session = None"
    by (simp add: initial_session_def)
  show ?thesis
    using idle
      posting_url_from_extension [OF idle, of "chrome_getURL ''abcdefghijklmnop''"
        "OnClickData None" "Some host_tab" "''PlainPost''"
        "[''posting_content_server_url'' \<mapsto> ''https://example.org'']"]
    by (simp add: configured_session_def chrome_getURL_def)
qed

subsection \<open>Closing a bound tab\<close>

text \<open>
  C5: when both \<^verbatim>\<open>postingResultTab\<close> and \<^verbatim>\<open>postingApplicationTabId\<close> are bound, the
  removal of the posting application's tab or of the host tab leaves the session idle:
  both identifiers undefined and the starting value the empty string, the secret and
  \<^verbatim>\<open>localStorage\<close> as they were. When the removed tab is the posting application's,
  the host tab is sent \<^verbatim>\<open>{pendingPost: false}\<close>; otherwise (the host tab was removed)
  the posting application's tab is asked to be removed. Nothing else is done.
\<close>

theorem tabRemoved_bound_resets:
  assumes "postingResultTab s = Some r"
    and "postingApplicationTabId s = Some a"
    and "tabId = a \<or> tabId = tab_id r"
  shows "tabRemoved tabId s =
           \<lparr>state = s\<lparr>postingResultTab := None, postingApplicationTabId := None,
                       postingApplicationStartingValue := ''''\<rparr>,
            effects = (if tabId = a then [TabsSendMessage (tab_id r) (PendingPost False)]
                       else [TabsRemove a]),
            thrown = None\<rparr>"
  using assms by (auto simp add: tabRemoved_def)

theorem tabRemoved_bound_resets_witness:
  "tabRemoved 9 pending_session =
     \<lparr>state = pending_session\<lparr>postingResultTab := None, postingApplicationTabId := None,
                 postingApplicationStartingValue := ''''\<rparr>,
      effects = [TabsSendMessage 7 (PendingPost False)],
      thrown = None\<rparr> \<and>
   tabRemoved 7 pending_session =
     \<lparr>state = pending_session\<lparr>postingResultTab := None, postingApplicationTabId := None,
                 postingApplicationStartingValue := ''''\<rparr>,
      effects = [TabsRemove 9],
      thrown = None\<rparr>"
proof -
  have host: "postingResultTab pending_session = Some host_tab"
    by (simp add: pending_session_def)
  have app: "postingApplicationTabId pending_session = Some 9"
    by (simp add: pending_session_def)
  have closed_app: "(9::int) = 9 \<or> 9 = tab_id host_tab"
    by simp
  have closed_host: "(7::int) = 9 \<or> 7 = tab_id host_tab"
    by (simp add: host_tab_def)
  show ?thesis
    using tabRemoved_bound_resets [OF host app closed_app]
      tabRemoved_bound_resets [OF host app closed_host]
    by (simp add: host_tab_def)
qed

subsection \<open>Initial content for a tab that is not the posting application\<close>

text \<open>
  C6: an \<^verbatim>\<open>initialContent\<close> request from a tab whose id is not the bound
  \<^verbatim>\<open>postingApplicationTabId\<close> is answered by \<^verbatim>\<open>sendInitialContent\<close> with the empty
  string as initial content, whatever the pending draft \<open>draft\<close> is: the reply is the
  same for every draft. The two other listeners of the message,
  \<^verbatim>\<open>initializeMessagePathway\<close> and \<^verbatim>\<open>receiveNewPrivlyUrl\<close>, answer nothing.
\<close>

theorem initialContent_unbound_sender_empty:
  assumes "handler req = JString ''initialContent''"
    and "tab sndr = Some t"
    and "Some (tab_id t) \<noteq> postingApplicationTabId s"
  shows "sendInitialContent req sndr (s\<lparr>postingApplicationStartingValue := draft\<rparr>) =
           \<lparr>state = s\<lparr>postingApplicationStartingValue := draft\<rparr>,
            effects = [SendResponse (Response (messageSecret s) (Some '''') ''initialContent'')],
            thrown = None\<rparr> \<and>
         effects (initializeMessagePathway req sndr
            (s\<lparr>postingApplicationStartingValue := draft\<rparr>)) = [] \<and>
         effects (receiveNewPrivlyUrl req sndr
            (s\<lparr>postingApplicationStartingValue := draft\<rparr>)) = []"
  using assms
  by (simp add: sendInitialContent_def initializeMessagePathway_def receiveNewPrivlyUrl_def)

theorem initialContent_unbound_sender_empty_witness:
  "sendInitialContent initialContent_request
     \<lparr>tab = Some \<lparr>tab_id = 11, tab_url = ''https://evil.example/''\<rparr>\<rparr> pending_session =
     \<lparr>state = pending_session,
      effects = [SendResponse (Response (JString ''S'') (Some '''') ''initialContent'')],
      thrown = None\<rparr> \<and>
   effects (initializeMessagePathway initialContent_request
     \<lparr>tab = Some \<lparr>tab_id = 11, tab_url = ''https://evil.example/''\<rparr>\<rparr> pending_session) = [] \<and>
   effects (receiveNewPrivlyUrl initialContent_request
     \<lparr>tab = Some \<lparr>tab_id = 11, tab_url = ''https://evil.example/''\<rparr>\<rparr> pending_session) = []"
proof -
  have h: "handler initialContent_request = JString ''initialContent''"
    by (simp add: initialContent_request_def)
  have t: "tab \<lparr>tab = Some \<lparr>tab_id = 11, tab_url = ''https://evil.example/''\<rparr>\<rparr> =
      Some \<lparr>tab_id = 11, tab_url = ''https://evil.example/''\<rparr>"
    by simp
  have other: "Some (tab_id \<lparr>tab_id = 11, tab_url = ''https://evil.example/''\<rparr>) \<noteq>
      postingApplicationTabId pending_session"
    by (simp add: pending_session_def)
  have same: "pending_session\<lparr>postingApplicationStartingValue := ''hello''\<rparr> = pending_session"
    by (simp add: pending_session_def)
  have secret: "messageSecret pending_session = JString ''S''"
    by (simp add: pending_session_def)
  show ?thesis
    using initialContent_unbound_sender_empty [OF h t other, of "''hello''"]
    unfolding same secret by assumption
qed

subsection \<open>A secret from outside the extension\<close>

text \<open>
  C8: a \<^verbatim>\<open>messageSecret\<close> message from a tab whose URL does not begin with
  \<^verbatim>\<open>chrome-extension://\<close> is ignored by \<^verbatim>\<open>initializeMessagePathway\<close>: the session, and
  with it the stored secret, is unchanged, no reply is sent and nothing is thrown.
\<close>

theorem foreign_secret_ignored:
  assumes "handler req = JString ''messageSecret''"
    and "tab sndr = Some t"
    and "\<not> prefix ''chrome-extension://'' (tab_url t)"
  shows "initializeMessagePathway req sndr s = \<lparr>state = s, effects = [], thrown = None\<rparr>"
  using assms by (simp add: initializeMessagePathway_def indexOf_zero_iff_prefix)

theorem foreign_secret_ignored_witness:
  "initializeMessagePathway (secret_request ''forged'') \<lparr>tab = Some host_tab\<rparr> pending_session =
     \<lparr>state = pending_session, effects = [], thrown = None\<rparr> \<and>
   messageSecret (state (initializeMessagePathway (secret_request ''forged'')
     \<lparr>tab = Some host_tab\<rparr> pending_session)) = JString ''S''"
proof -
  have h: "handler (secret_request ''forged'') = JString ''messageSecret''"
    by (simp add: secret_request_def)
  have t: "tab \<lparr>tab = Some host_tab\<rparr> = Some host_tab"
    by simp
  have foreign: "\<not> prefix ''chrome-extension://'' (tab_url host_tab)"
    by (simp add: host_tab_def)
  show ?thesis
    using foreign_secret_ignored [OF h t foreign, of pending_session]
    by (simp add: pending_session_def)
qed

subsection \<open>Starting a post\<close>

text \<open>
  C9: a trigger in the idle session, from the tab with id 7, with the selected text
  \<open>hello\<close> and the application ZeroBin, opens one window at the location of ZeroBin's
  \<^verbatim>\<open>new.html\<close>. When the browser has created the window, the callback leaves the
  session with \<^verbatim>\<open>postingResultTab\<close> the source tab, \<^verbatim>\<open>postingApplicationTabId\<close> the id
  of the new window's first tab and the starting value \<open>hello\<close>, and sends tab 7 the
  message \<^verbatim>\<open>{pendingPost: true}\<close>.
\<close>

theorem trigger_idle_opens_session:
  assumes "postingResultTab s = None" and "postingApplicationTabId s = None"
    and "tab_id src = 7"
    and "tabs newWindow = t # rest"
  shows "effects (postingHandler getURL (OnClickData (Some ''hello'')) (Some src) ''ZeroBin'' s) =
           [WindowsCreate
              \<lparr>create_url = getURL ''privly-applications/ZeroBin/new.html'',
               create_focused = True, create_top = 0, create_left = 0,
               create_type = ''normal''\<rparr> (Some src)] \<and>
         thrown (postingHandler getURL (OnClickData (Some ''hello'')) (Some src) ''ZeroBin'' s) = None \<and>
         postingResultTab (state (windowCreated (Some src) newWindow
            (state (postingHandler getURL (OnClickData (Some ''hello'')) (Some src) ''ZeroBin'' s))))
           = Some src \<and>
         postingApplicationTabId (state (windowCreated (Some src) newWindow
            (state (postingHandler getURL (OnClickData (Some ''hello'')) (Some src) ''ZeroBin'' s))))
           = Some (tab_id t) \<and>
         postingApplicationStartingValue (state (windowCreated (Some src) newWindow
            (state (postingHandler getURL (OnClickData (Some ''hello'')) (Some src) ''ZeroBin'' s))))
           = ''hello'' \<and>
         effects (windowCreated (Some src) newWindow
            (state (postingHandler getURL (OnClickData (Some ''hello'')) (Some src) ''ZeroBin'' s)))
           = [TabsSendMessage 7 (PendingPost True)] \<and>
         thrown (windowCreated (Some src) newWindow
            (state (postingHandler getURL (OnClickData (Some ''hello'')) (Some src) ''ZeroBin'' s)))
           = None"
  using assms
  by (simp add: postingHandler_def windowCreated_def Let_def split: option.splits)

theorem trigger_idle_opens_session_witness:
  "effects (postingHandler (chrome_getURL ''abcdefghijklmnop'') (OnClickData (Some ''hello''))
      (Some host_tab) ''ZeroBin'' initial_session) =
     [WindowsCreate
        \<lparr>create_url = ''chrome-extension://abcdefghijklmnop/privly-applications/ZeroBin/new.html'',
         create_focused = True, create_top = 0, create_left = 0,
         create_type = ''normal''\<rparr> (Some host_tab)] \<and>
   state (windowCreated (Some host_tab) \<lparr>tabs = [app_tab]\<rparr>
      (state (postingHandler (chrome_getURL ''abcdefghijklmnop'') (OnClickData (Some ''hello''))
         (Some host_tab) ''ZeroBin'' initial_session))) =
     \<lparr>messageSecret = JNull, postingResultTab = Some host_tab,
      postingApplicationTabId = Some 9, postingApplicationStartingValue = ''hello'',
      localStorage = [''posting_content_server_url'' \<mapsto> ''https://privlyalpha.org'']\<rparr> \<and>
   effects (windowCreated (Some host_tab) \<lparr>tabs = [app_tab]\<rparr>
      (state (postingHandler (chrome_getURL ''abcdefghijklmnop'') (OnClickData (Some ''hello''))
         (Some host_tab) ''ZeroBin'' initial_session))) =
     [TabsSendMessage 7 (PendingPost True)]"
proof -
  have idle_host: "postingResultTab initial_session = None"
    by (simp add: initial_session_def)
  have idle_app: "postingApplicationTabId initial_session = None"
    by (simp add: initial_session_def)
  have seven: "tab_id host_tab = 7"
    by (simp add: host_tab_def)
  have first_tab: "tabs \<lparr>tabs = [app_tab]\<rparr> = app_tab # []"
    by simp
  have rest: "state (windowCreated (Some host_tab) \<lparr>tabs = [app_tab]\<rparr>
      (state (postingHandler (chrome_getURL ''abcdefghijklmnop'') (OnClickData (Some ''hello''))
         (Some host_tab) ''ZeroBin'' initial_session))) =
     \<lparr>messageSecret = JNull, postingResultTab = Some host_tab,
      postingApplicationTabId = Some 9, postingApplicationStartingValue = ''hello'',
      localStorage = [''posting_content_server_url'' \<mapsto> ''https://privlyalpha.org'']\<rparr>"
    by (simp add: postingHandler_def windowCreated_def initial_session_def app_tab_def)
  show ?thesis
    using rest
      trigger_idle_opens_session [OF idle_host idle_app seven first_tab,
        of "chrome_getURL ''abcdefghijklmnop''"]
    by (simp add: chrome_getURL_def)
qed

subsection \<open>The button of the content script\<close>

text \<open>
  C10, as the claim states it, fails: not every trigger that arrives as the message
  \<^verbatim>\<open>{ask: "newPost"}\<close> starts a session. On the pending session (host tab 7, posting
  application tab 9, draft \<open>hello\<close>) such a trigger from tab 7 takes the warning branch
  of \<^verbatim>\<open>postingHandler\<close>: it opens no window, ZeroBin's or any other, and the starting
  value is still \<open>hello\<close>, not the empty string.
\<close>

theorem newPost_pending_opens_nothing_counterexample:
  "newPostListener (chrome_getURL ''abcdefghijklmnop'') newPost_request \<lparr>tab = Some host_tab\<rparr>
      pending_session =
     \<lparr>state = pending_session, effects = [postTwiceWarning], thrown = None\<rparr> \<and>
   created_urls (effects (newPostListener (chrome_getURL ''abcdefghijklmnop'') newPost_request
      \<lparr>tab = Some host_tab\<rparr> pending_session)) = [] \<and>
   postingApplicationStartingValue (state (newPostListener (chrome_getURL ''abcdefghijklmnop'')
      newPost_request \<lparr>tab = Some host_tab\<rparr> pending_session)) = ''hello'' \<and>
   postingApplicationStartingValue (state (newPostListener (chrome_getURL ''abcdefghijklmnop'')
      newPost_request \<lparr>tab = Some host_tab\<rparr> pending_session)) \<noteq> ''''"
  by (simp add: newPostListener_def postingHandler_def newPost_request_def pending_session_def
      postTwiceWarning_def)

text \<open>
  C10, amended: a trigger that arrives as the message \<^verbatim>\<open>{ask: "newPost"}\<close> from a tab
  calls \<^verbatim>\<open>postingHandler\<close> with the number 0 as \<^verbatim>\<open>info\<close>, which has no
  \<^verbatim>\<open>selectionText\<close>, and with the application ZeroBin. While no posting application
  tab is bound, it sets the starting value to the empty string (and changes nothing
  else but the defaulted \<^verbatim>\<open>localStorage\<close> entry) and opens exactly one window,
  ZeroBin's; the window's callback then binds the sender's tab as host and the new
  window's first tab as posting application, tells the host \<^verbatim>\<open>{pendingPost: true}\<close>,
  and the session starts with the empty string as starting value. While a posting
  application tab is bound, the trigger leaves the session as it is and only warns.
\<close>

theorem newPost_idle_starts_empty_ZeroBin:
  assumes "ask req = JString ''newPost''"
    and "tab sndr = Some src"
    and "tabs newWindow = t # rest"
  shows "(if postingApplicationTabId s = None then
            newPostListener getURL req sndr s =
              \<lparr>state =
                 (case localStorage s ''posting_content_server_url'' of
                    None \<Rightarrow>
                      s\<lparr>localStorage :=
                          (localStorage s)(''posting_content_server_url'' \<mapsto>
                             ''https://privlyalpha.org'')\<rparr>
                  | Some postingDomain \<Rightarrow> s)\<lparr>postingApplicationStartingValue := ''''\<rparr>,
               effects =
                 [WindowsCreate
                    \<lparr>create_url = getURL ''privly-applications/ZeroBin/new.html'',
                     create_focused = True, create_top = 0, create_left = 0,
                     create_type = ''normal''\<rparr> (Some src)],
               thrown = None\<rparr> \<and>
            windowCreated (Some src) newWindow (state (newPostListener getURL req sndr s)) =
              \<lparr>state =
                 (state (newPostListener getURL req sndr s))
                   \<lparr>postingApplicationTabId := Some (tab_id t), postingResultTab := Some src\<rparr>,
               effects = [TabsSendMessage (tab_id src) (PendingPost True)],
               thrown = None\<rparr> \<and>
            postingApplicationStartingValue (state (windowCreated (Some src) newWindow
               (state (newPostListener getURL req sndr s)))) = ''''
          else
            newPostListener getURL req sndr s =
              \<lparr>state = s, effects = [postTwiceWarning], thrown = None\<rparr>)"
  using assms
  by (simp add: newPostListener_def postingHandler_def windowCreated_def Let_def
      split: option.splits)

theorem newPost_idle_starts_empty_ZeroBin_witness:
  "newPostListener (chrome_getURL ''abcdefghijklmnop'') newPost_request \<lparr>tab = Some host_tab\<rparr>
      (initial_session\<lparr>postingApplicationStartingValue := ''stale''\<rparr>) =
     \<lparr>state =
        \<lparr>messageSecret = JNull, postingResultTab = None, postingApplicationTabId = None,
         postingApplicationStartingValue = '''',
         localStorage = [''posting_content_server_url'' \<mapsto> ''https://privlyalpha.org'']\<rparr>,
      effects =
        [WindowsCreate
           \<lparr>create_url =
              ''chrome-extension://abcdefghijklmnop/privly-applications/ZeroBin/new.html'',
            create_focused = True, create_top = 0, create_left = 0,
            create_type = ''normal''\<rparr> (Some host_tab)],
      thrown = None\<rparr> \<and>
   windowCreated (Some host_tab) \<lparr>tabs = [app_tab]\<rparr>
      (state (newPostListener (chrome_getURL ''abcdefghijklmnop'') newPost_request
         \<lparr>tab = Some host_tab\<rparr>
         (initial_session\<lparr>postingApplicationStartingValue := ''stale''\<rparr>))) =
     \<lparr>state =
        \<lparr>messageSecret = JNull, postingResultTab = Some host_tab,
         postingApplicationTabId = Some 9, postingApplicationStartingValue = '''',
         localStorage = [''posting_content_server_url'' \<mapsto> ''https://privlyalpha.org'']\<rparr>,
      effects = [TabsSendMessage 7 (PendingPost True)],
      thrown = None\<rparr>"
proof -
  let ?g = "chrome_getURL ''abcdefghijklmnop''"
  let ?s = "initial_session\<lparr>postingApplicationStartingValue := ''stale''\<rparr>"
  let ?started =
    "\<lparr>messageSecret = JNull, postingResultTab = None, postingApplicationTabId = None,
      postingApplicationStartingValue = '''',
      localStorage = [''posting_content_server_url'' \<mapsto> ''https://privlyalpha.org'']\<rparr>"
  have a: "ask newPost_request = JString ''newPost''"
    by (simp add: newPost_request_def)
  have from_tab: "tab \<lparr>tab = Some host_tab\<rparr> = Some host_tab"
    by simp
  have first_tab: "tabs \<lparr>tabs = [app_tab]\<rparr> = app_tab # []"
    by simp
  have idle: "postingApplicationTabId ?s = None"
    by (simp add: initial_session_def)
  note accepted =
    newPost_idle_starts_empty_ZeroBin [OF a from_tab first_tab, of ?s ?g, unfolded if_P [OF idle]]
  have handler_part:
    "newPostListener ?g newPost_request \<lparr>tab = Some host_tab\<rparr> ?s =
       \<lparr>state = ?started,
        effects =
          [WindowsCreate
             \<lparr>create_url =
                ''chrome-extension://abcdefghijklmnop/privly-applications/ZeroBin/new.html'',
              create_focused = True, create_top = 0, create_left = 0,
              create_type = ''normal''\<rparr> (Some host_tab)],
        thrown = None\<rparr>"
    using accepted [THEN conjunct1]
    by (simp add: initial_session_def chrome_getURL_def)
  have started: "state (newPostListener ?g newPost_request \<lparr>tab = Some host_tab\<rparr> ?s) = ?started"
    by (simp add: handler_part)
  have callback_part:
    "windowCreated (Some host_tab) \<lparr>tabs = [app_tab]\<rparr>
       (state (newPostListener ?g newPost_request \<lparr>tab = Some host_tab\<rparr> ?s)) =
       \<lparr>state =
          \<lparr>messageSecret = JNull, postingResultTab = Some host_tab,
           postingApplicationTabId = Some 9, postingApplicationStartingValue = '''',
           localStorage = [''posting_content_server_url'' \<mapsto> ''https://privlyalpha.org'']\<rparr>,
        effects = [TabsSendMessage 7 (PendingPost True)],
        thrown = None\<rparr>"
    using accepted [THEN conjunct2, THEN conjunct1]
    unfolding started
    by (simp add: host_tab_def app_tab_def)
  show ?thesis
    using handler_part callback_part by (rule conjI)
qed

end
